theory Spec2Isabelle
  imports Main "HOL-Library.Multiset"
begin

section \<open>Strings\<close>

text \<open>
  JavaScript strings are modelled as \<^typ>\<open>string\<close>: a list of code units below 256.
  The functions of the program that the development covers look only at ASCII
  characters (letters, digits, the double quote, the signs and the wildcard characters of
  the database engine), so nothing depends on characters beyond that range.
\<close>

definition dquote :: char where
  "dquote = CHR 0x22"

definition toLowerChar :: "char \<Rightarrow> char" where
  "toLowerChar c =
     (let n = (of_char c :: nat) in if 65 \<le> n \<and> n \<le> 90 then char_of (n + 32) else c)"

text \<open>\<^verbatim>\<open>String.prototype.toLowerCase\<close>, on the ASCII letters.\<close>

definition toLowerCase :: "string \<Rightarrow> string" where
  "toLowerCase s = map toLowerChar s"

text \<open>\<^verbatim>\<open>s.startsWith(t)\<close> and \<^verbatim>\<open>s.includes(t)\<close>: the search tries every position from the left.\<close>

fun startsWith :: "string \<Rightarrow> string \<Rightarrow> bool" where
  "startsWith s [] = True"
| "startsWith [] (c # t) = False"
| "startsWith (d # s) (c # t) = (d = c \<and> startsWith s t)"

fun includesStr :: "string \<Rightarrow> string \<Rightarrow> bool" where
  "includesStr [] t = (t = [])"
| "includesStr (c # s) t = (startsWith (c # s) t \<or> includesStr s t)"

section \<open>The API server: identifier quoting\<close>

text \<open>
  \<^verbatim>\<open>function quoteIdentifier(identifier) {
    return `"${String(identifier).replace(/"/g, '""')}"`;
  }\<close>
  The global replace scans the string from the left and writes two double quotes for
  each double quote it meets.
\<close>

fun replace_dquotes :: "string \<Rightarrow> string" where
  "replace_dquotes [] = []"
| "replace_dquotes (c # s) =
     (if c = dquote then dquote # dquote # replace_dquotes s else c # replace_dquotes s)"

definition quoteIdentifier :: "string \<Rightarrow> string" where
  "quoteIdentifier identifier = dquote # replace_dquotes identifier @ [dquote]"

section \<open>The validation module: type inference from a field name\<close>

text \<open>
  \<^verbatim>\<open>export function inferFieldType(fieldName) {
    const name = fieldName.toLowerCase();
    if (name.includes('email') || name.includes('mail')) { return 'email'; }
    if (name.includes('id') || name.includes('count') || name.includes('number') ||
        name.includes('price') || name.includes('amount') || name.includes('quantity')) {
      return 'number';
    }
    return 'text';
  }\<close>
\<close>

definition inferFieldType :: "string \<Rightarrow> string" where
  "inferFieldType fieldName =
     (let name = toLowerCase fieldName in
      if includesStr name ''email'' \<or> includesStr name ''mail'' then ''email''
      else if includesStr name ''id'' \<or> includesStr name ''count'' \<or> includesStr name ''number'' \<or>
              includesStr name ''price'' \<or> includesStr name ''amount'' \<or> includesStr name ''quantity''
      then ''number''
      else ''text'')"

section \<open>The validation module: the integer rule\<close>

text \<open>
  A thrown \<^verbatim>\<open>ValidationError(message, field)\<close> is the left summand of the result.
\<close>

datatype ValidationError = ValidationError (message: string) (field: string)

text \<open>
  White space as \<^verbatim>\<open>String.prototype.trim\<close> and \<^verbatim>\<open>parseInt\<close> skip it: tab, line feed,
  vertical tab, form feed, carriage return, space and the no-break space.
\<close>

definition isWhiteSpace :: "char \<Rightarrow> bool" where
  "isWhiteSpace c = ((of_char c :: nat) \<in> {9, 10, 11, 12, 13, 32, 160})"

definition trim :: "string \<Rightarrow> string" where
  "trim s = rev (dropWhile isWhiteSpace (rev (dropWhile isWhiteSpace s)))"

text \<open>
  The result of \<^verbatim>\<open>parseInt\<close> is \<^verbatim>\<open>NaN\<close> or a number with an integral value. The model
  keeps the mathematical value of the digits; a digit string so long that the double
  overflows to \<^verbatim>\<open>Infinity\<close> (more than 308 decimal digits) is outside the model.
\<close>

datatype jsnumber = NaN | Num int

fun isNaN :: "jsnumber \<Rightarrow> bool" where
  "isNaN NaN = True"
| "isNaN (Num n) = False"

text \<open>\<^verbatim>\<open>Number.isInteger\<close>: false for \<^verbatim>\<open>NaN\<close>, true for every integral number.\<close>

fun isInteger :: "jsnumber \<Rightarrow> bool" where
  "isInteger NaN = False"
| "isInteger (Num n) = True"

definition digitValue :: "char \<Rightarrow> nat option" where
  "digitValue c =
     (let n = (of_char c :: nat) in
      if 48 \<le> n \<and> n \<le> 57 then Some (n - 48)
      else if 97 \<le> n \<and> n \<le> 122 then Some (n - 87)
      else if 65 \<le> n \<and> n \<le> 90 then Some (n - 55)
      else None)"

text \<open>The longest prefix of digits of the radix, as their values.\<close>

fun radixDigits :: "nat \<Rightarrow> string \<Rightarrow> nat list" where
  "radixDigits R [] = []"
| "radixDigits R (c # s) =
     (case digitValue c of
        None \<Rightarrow> []
      | Some d \<Rightarrow> if d < R then d # radixDigits R s else [])"

text \<open>
  \<^verbatim>\<open>parseInt(string)\<close> with no radix argument, after ECMA-262: skip leading white space,
  read a sign, read a \<^verbatim>\<open>0x\<close> or \<^verbatim>\<open>0X\<close> prefix (radix 16, otherwise 10), take the longest
  prefix of digits and ignore whatever follows it; \<^verbatim>\<open>NaN\<close> when there is no digit.
\<close>

definition parseInt :: "string \<Rightarrow> jsnumber" where
  "parseInt inputString =
     (let S = dropWhile isWhiteSpace inputString;
          sign = (if startsWith S ''-'' then - 1 else 1 :: int);
          S1 = (if startsWith S ''+'' \<or> startsWith S ''-'' then drop 1 S else S);
          stripPrefix = (startsWith S1 ''0x'' \<or> startsWith S1 ''0X'');
          R = (if stripPrefix then 16 else 10 :: nat);
          S2 = (if stripPrefix then drop 2 S1 else S1);
          Z = radixDigits R S2
      in if Z = [] then NaN else Num (sign * int (foldl (\<lambda>a d. a * R + d) 0 Z)))"

text \<open>
  \<^verbatim>\<open>export function validateInteger(value, fieldName) {
    if (value && value.toString().trim() !== '') {
      const intValue = parseInt(value);
      if (isNaN(intValue) || !Number.isInteger(intValue)) {
        throw new ValidationError(`${fieldName} must be a valid integer`, fieldName);
      }
    }
    return true;
  }\<close>
  The value is the string read from a form input; a string is truthy when it is not empty.
\<close>

definition validateInteger :: "string \<Rightarrow> string \<Rightarrow> ValidationError + bool" where
  "validateInteger value fieldName =
     (if value \<noteq> [] \<and> trim value \<noteq> [] then
        (let intValue = parseInt value in
         if isNaN intValue \<or> \<not> isInteger intValue
         then Inl (ValidationError (fieldName @ '' must be a valid integer'') fieldName)
         else Inr True)
      else Inr True)"

section \<open>The data-access module\<close>

text \<open>
  Each accessor sends one request with \<^verbatim>\<open>fetch\<close> and looks at the response. The network is
  the parameter \<open>fetch\<close>: it answers a request with a response, or with nothing when the
  request fails before any response arrives (the promise rejects). A request is the
  method, the path segments before \<^verbatim>\<open>encodeURIComponent\<close> encodes them, and the payload
  that \<^verbatim>\<open>JSON.stringify\<close> serialises. Of a response the accessors read the status, the
  flag \<^verbatim>\<open>ok\<close> (by the Fetch standard: the status is in the range 200 to 299) and the body
  as \<^verbatim>\<open>response.json()\<close> parses it (nothing when the body is not JSON).
\<close>

record 'p request =
  http_method :: string
  path :: "string list"
  payload :: "'p option"

record 'j response =
  status :: nat
  parsed :: "'j option"

definition ok :: "'j response \<Rightarrow> bool" where
  "ok r = (200 \<le> status r \<and> status r \<le> 299)"

text \<open>What an accessor throws: an \<^verbatim>\<open>Error\<close> with a message, or what the platform raises.\<close>

datatype js_error = Error string | FetchRejected | JsonSyntaxError

text \<open>The decimal digits of a number, as a template literal writes them.\<close>

fun string_of_nat :: "nat \<Rightarrow> string" where
  "string_of_nat n =
     (if n < 10 then [char_of (48 + n)]
      else string_of_nat (n div 10) @ [char_of (48 + n mod 10)])"

declare string_of_nat.simps [simp del]

text \<open>
  The result of an accessor is the error it throws or the value it returns, paired with
  the requests it has sent, in order.
\<close>

definition json :: "'j response \<Rightarrow> js_error + 'j" where
  "json r = (case parsed r of None \<Rightarrow> Inl JsonSyntaxError | Some j \<Rightarrow> Inr j)"

definition fetchAllItems ::
  "('p request \<Rightarrow> 'j response option) \<Rightarrow> string \<Rightarrow> (js_error + 'j) \<times> 'p request list" where
  "fetchAllItems fetch tableName =
     (let req = \<lparr>http_method = ''GET'', path = [''api'', tableName], payload = None\<rparr> in
      (case fetch req of
         None \<Rightarrow> Inl FetchRejected
       | Some r \<Rightarrow>
           if \<not> ok r then Inl (Error (''HTTP error! status: '' @ string_of_nat (status r)))
           else json r,
       [req]))"

definition fetchFilteredItems ::
  "('p request \<Rightarrow> 'j response option) \<Rightarrow> string \<Rightarrow> string \<Rightarrow>
     (js_error + 'j) \<times> 'p request list" where
  "fetchFilteredItems fetch tableName searchValue =
     (let req = \<lparr>http_method = ''GET'', path = [''api'', tableName, ''search'', searchValue],
                 payload = None\<rparr> in
      (case fetch req of
         None \<Rightarrow> Inl FetchRejected
       | Some r \<Rightarrow>
           if \<not> ok r then Inl (Error (''HTTP error! status: '' @ string_of_nat (status r)))
           else json r,
       [req]))"

definition createItem ::
  "('p request \<Rightarrow> 'j response option) \<Rightarrow> string \<Rightarrow> 'p \<Rightarrow>
     (js_error + 'j response) \<times> 'p request list" where
  "createItem fetch tableName pl =
     (let req = \<lparr>http_method = ''POST'', path = [''api'', tableName], payload = Some pl\<rparr> in
      (case fetch req of
         None \<Rightarrow> Inl FetchRejected
       | Some r \<Rightarrow>
           if \<not> ok r then Inl (Error (''Create failed: '' @ string_of_nat (status r)))
           else Inr r,
       [req]))"

definition updateItem ::
  "('p request \<Rightarrow> 'j response option) \<Rightarrow> string \<Rightarrow> string \<Rightarrow> 'p \<Rightarrow>
     (js_error + 'j response) \<times> 'p request list" where
  "updateItem fetch tableName pkValue pl =
     (let req = \<lparr>http_method = ''PUT'', path = [''api'', tableName, pkValue], payload = Some pl\<rparr> in
      (case fetch req of
         None \<Rightarrow> Inl FetchRejected
       | Some r \<Rightarrow>
           if \<not> ok r then Inl (Error (''Update failed: '' @ string_of_nat (status r)))
           else Inr r,
       [req]))"

definition deleteItem ::
  "('p request \<Rightarrow> 'j response option) \<Rightarrow> string \<Rightarrow> string \<Rightarrow>
     (js_error + 'j response) \<times> 'p request list" where
  "deleteItem fetch tableName pkValue =
     (let req = \<lparr>http_method = ''DELETE'', path = [''api'', tableName, pkValue], payload = None\<rparr> in
      (case fetch req of
         None \<Rightarrow> Inl FetchRejected
       | Some r \<Rightarrow>
           if \<not> ok r then Inl (Error (''Deletion failed: '' @ string_of_nat (status r)))
           else Inr r,
       [req]))"

definition fetchTableMeta ::
  "('p request \<Rightarrow> 'j response option) \<Rightarrow> string \<Rightarrow> (js_error + 'j) \<times> 'p request list" where
  "fetchTableMeta fetch tableName =
     (let req = \<lparr>http_method = ''GET'', path = [''api'', tableName, ''meta''], payload = None\<rparr> in
      (case fetch req of
         None \<Rightarrow> Inl FetchRejected
       | Some r \<Rightarrow>
           if \<not> ok r then Inl (Error (''Failed to load metadata for '' @ tableName))
           else json r,
       [req]))"

section \<open>The database engine\<close>

text \<open>
  The server talks to an embedded SQLite database through \<^verbatim>\<open>db.get\<close>, \<^verbatim>\<open>db.all\<close> and
  \<^verbatim>\<open>db.run\<close>. The engine is not part of the repository; this section models, after the
  engine's documentation, the statements that the generic routes send to it.

  A stored value is \<^verbatim>\<open>NULL\<close>, an integer or a text (reals and blobs are outside the
  model). A table has its columns, as \<^verbatim>\<open>PRAGMA table_info\<close> reports them (the name, the
  declared type, the flag \<^verbatim>\<open>notnull\<close>, and \<^verbatim>\<open>pk\<close>: zero for a column outside the primary
  key, otherwise the position of the column in the primary key, counted from one) with
  the flag of a \<^verbatim>\<open>UNIQUE\<close> column; its rows in storage order, each with its row id; and,
  for a table declared with \<^verbatim>\<open>AUTOINCREMENT\<close>, the largest row id that was ever assigned
  in it (what the engine records in \<^verbatim>\<open>sqlite_sequence\<close>). A statement fails when it names a
  table or a column that does not exist, when it is malformed, or when the engine finds
  that its result would violate a constraint of the table.
\<close>

datatype sqlval = Null | Integer int | Text string

record column =
  cname :: string
  ctype :: string
  cnotnull :: bool
  cpk :: nat
  cunique :: bool

type_synonym row = "(string \<times> sqlval) list"

record table =
  tcols :: "column list"
  trows :: "(int \<times> row) list"
  tseq :: "int option"

type_synonym database = "string \<rightharpoonup> table"

text \<open>
  A value of a JSON request body, as \<^verbatim>\<open>express.json()\<close> parses it. The model covers the
  scalars; \<open>Undefined\<close> is what reading a missing property gives.
\<close>

datatype jsval = Undefined | JNull | JBool bool | JNum int | JStr string

text \<open>
  What depends on the declaration of a table is left to the engine as a parameter: the
  value that is stored when a JavaScript value is bound to a column (by the affinity of
  its declared type), the value that a column left out of an \<^verbatim>\<open>INSERT\<close> receives (the new
  row id for an \<^verbatim>\<open>INTEGER PRIMARY KEY\<close>, else the declared default or \<^verbatim>\<open>NULL\<close>), whether a
  stored value equals a text parameter in \<^verbatim>\<open>WHERE column = ?\<close>, the row id that a new row
  of a table receives, and whether a table as a statement would leave it satisfies its
  constraints (\<^verbatim>\<open>NOT NULL\<close>, \<^verbatim>\<open>UNIQUE\<close>, \<^verbatim>\<open>CHECK\<close>, the primary key).
\<close>

record engine =
  store :: "column \<Rightarrow> jsval \<Rightarrow> sqlval"
  fill :: "column \<Rightarrow> int \<Rightarrow> sqlval"
  matches :: "column \<Rightarrow> sqlval \<Rightarrow> string \<Rightarrow> bool"
  new_rowid :: "table \<Rightarrow> int"
  accepts :: "table \<Rightarrow> bool"

subsection \<open>Identifiers\<close>

text \<open>
  The engine reads a double-quoted identifier: an opening double quote, then characters
  in which two double quotes stand for one, then the closing double quote at the end.
\<close>

fun unquote_body :: "string \<Rightarrow> string option" where
  "unquote_body [] = None"
| "unquote_body [c] = (if c = dquote then Some [] else None)"
| "unquote_body (c # d # s) =
     (if c = dquote then (if d = dquote then map_option ((#) dquote) (unquote_body s) else None)
      else map_option ((#) c) (unquote_body (d # s)))"

definition unquoteIdentifier :: "string \<Rightarrow> string option" where
  "unquoteIdentifier q =
     (case q of [] \<Rightarrow> None | c # s \<Rightarrow> if c = dquote then unquote_body s else None)"

fun unquoteAll :: "string list \<Rightarrow> string list option" where
  "unquoteAll [] = Some []"
| "unquoteAll (q # qs) =
     (case unquoteIdentifier q of
        None \<Rightarrow> None
      | Some n \<Rightarrow> map_option ((#) n) (unquoteAll qs))"

definition find_column :: "table \<Rightarrow> string \<Rightarrow> column option" where
  "find_column t n = find (\<lambda>c. cname c = n) (tcols t)"

text \<open>The value of a column in a row; a row has a cell for each column of its table.\<close>

definition cell :: "string \<Rightarrow> row \<Rightarrow> sqlval" where
  "cell n r = (case map_of r n of None \<Rightarrow> Null | Some v \<Rightarrow> v)"

subsection \<open>The order of values\<close>

text \<open>
  \<^verbatim>\<open>ORDER BY\<close> puts \<^verbatim>\<open>NULL\<close> first, then the integers by value, then the texts, compared
  byte by byte (the default collation \<^verbatim>\<open>BINARY\<close>).
\<close>

fun str_le :: "string \<Rightarrow> string \<Rightarrow> bool" where
  "str_le [] t = True"
| "str_le (c # s) [] = False"
| "str_le (c # s) (d # t) =
     ((of_char c :: nat) < of_char d \<or> (c = d \<and> str_le s t))"

fun val_le :: "sqlval \<Rightarrow> sqlval \<Rightarrow> bool" where
  "val_le Null w = True"
| "val_le (Integer i) Null = False"
| "val_le (Integer i) (Integer j) = (i \<le> j)"
| "val_le (Integer i) (Text t) = True"
| "val_le (Text s) Null = False"
| "val_le (Text s) (Integer j) = False"
| "val_le (Text s) (Text t) = str_le s t"

text \<open>
  \<^verbatim>\<open>ORDER BY column DESC\<close>: the rows are sorted by insertion, largest key first. The
  order among rows with equal keys is the engine's choice; the model keeps them in
  storage order.
\<close>

fun insert_desc :: "(row \<Rightarrow> sqlval) \<Rightarrow> row \<Rightarrow> row list \<Rightarrow> row list" where
  "insert_desc key r [] = [r]"
| "insert_desc key r (x # xs) =
     (if val_le (key x) (key r) then r # x # xs else x # insert_desc key r xs)"

definition order_desc :: "(row \<Rightarrow> sqlval) \<Rightarrow> row list \<Rightarrow> row list" where
  "order_desc key rs = foldr (insert_desc key) rs []"

subsection \<open>Text matching\<close>

text \<open>The decimal form of an integer, as \<^verbatim>\<open>CAST(x AS TEXT)\<close> writes it.\<close>

definition string_of_int :: "int \<Rightarrow> string" where
  "string_of_int i =
     (if i < 0 then CHR ''-'' # string_of_nat (nat (- i)) else string_of_nat (nat i))"

text \<open>\<^verbatim>\<open>CAST(x AS TEXT)\<close>: \<^verbatim>\<open>NULL\<close> stays \<^verbatim>\<open>NULL\<close> (no text).\<close>

fun cast_text :: "sqlval \<Rightarrow> string option" where
  "cast_text Null = None"
| "cast_text (Integer i) = Some (string_of_int i)"
| "cast_text (Text t) = Some t"

text \<open>
  \<^verbatim>\<open>text LIKE pattern\<close> with no escape character: in the pattern a percent sign matches
  any run of characters, the empty one too, an underscore matches any one character,
  and every other character matches itself, upper or lower case alike for the ASCII
  letters. The first argument is the pattern.
\<close>

fun like :: "string \<Rightarrow> string \<Rightarrow> bool" where
  "like [] s = (s = [])"
| "like (p # ps) [] = (p = CHR ''%'' \<and> like ps [])"
| "like (p # ps) (c # s) =
     (if p = CHR ''%'' then like ps (c # s) \<or> like (p # ps) s
      else (p = CHR ''_'' \<or> toLowerChar p = toLowerChar c) \<and> like ps s)"

text \<open>\<^verbatim>\<open>CAST(column AS TEXT) LIKE ?\<close> on a row; \<^verbatim>\<open>NULL LIKE ?\<close> is not true.\<close>

definition cast_like :: "string \<Rightarrow> string \<Rightarrow> row \<Rightarrow> bool" where
  "cast_like n pat r = (case cast_text (cell n r) of None \<Rightarrow> False | Some s \<Rightarrow> like pat s)"

subsection \<open>The statements\<close>

text \<open>
  Every statement returns nothing when the engine reports an error (the \<^verbatim>\<open>err\<close> argument
  of the callback). Identifiers arrive quoted, as the routes write them into the SQL
  text; parameters arrive as the list bound to the question marks.
\<close>

definition lookup_table :: "database \<Rightarrow> string \<Rightarrow> (string \<times> table) option" where
  "lookup_table d tq =
     (case unquoteIdentifier tq of
        None \<Rightarrow> None
      | Some n \<Rightarrow> (case d n of None \<Rightarrow> None | Some t \<Rightarrow> Some (n, t)))"

text \<open>\<^verbatim>\<open>SELECT name FROM sqlite_master WHERE type='table' AND name = ?\<close>, read by \<^verbatim>\<open>db.get\<close>.\<close>

definition sql_master_lookup :: "database \<Rightarrow> string \<Rightarrow> string option" where
  "sql_master_lookup d n = (case d n of None \<Rightarrow> None | Some t \<Rightarrow> Some n)"

text \<open>\<^verbatim>\<open>PRAGMA table_info(table)\<close>: the columns; no row for a table that does not exist.\<close>

definition sql_table_info :: "database \<Rightarrow> string \<Rightarrow> column list option" where
  "sql_table_info d tq =
     (case unquoteIdentifier tq of
        None \<Rightarrow> None
      | Some n \<Rightarrow> (case d n of None \<Rightarrow> Some [] | Some t \<Rightarrow> Some (tcols t)))"

text \<open>\<^verbatim>\<open>SELECT * FROM table\<close>, with \<^verbatim>\<open>ORDER BY column DESC\<close> when a column is given.\<close>

definition sql_select_all :: "database \<Rightarrow> string \<Rightarrow> string option \<Rightarrow> row list option" where
  "sql_select_all d tq orderBy =
     (case lookup_table d tq of
        None \<Rightarrow> None
      | Some (n, t) \<Rightarrow>
          (case orderBy of
             None \<Rightarrow> Some (map snd (trows t))
           | Some cq \<Rightarrow>
               (case unquoteIdentifier cq of
                  None \<Rightarrow> None
                | Some c \<Rightarrow>
                    (case find_column t c of
                       None \<Rightarrow> None
                     | Some col \<Rightarrow> Some (order_desc (cell c) (map snd (trows t)))))))"

text \<open>\<^verbatim>\<open>SELECT * FROM table WHERE column = ?\<close>: the rows that match, in storage order.\<close>

definition sql_select_where ::
  "engine \<Rightarrow> database \<Rightarrow> string \<Rightarrow> string \<Rightarrow> string \<Rightarrow> row list option" where
  "sql_select_where eng d tq cq param =
     (case lookup_table d tq of
        None \<Rightarrow> None
      | Some (n, t) \<Rightarrow>
          (case unquoteIdentifier cq of
             None \<Rightarrow> None
           | Some c \<Rightarrow>
               (case find_column t c of
                  None \<Rightarrow> None
                | Some col \<Rightarrow>
                    Some (filter (\<lambda>r. matches eng col (cell c r) param) (map snd (trows t))))))"

text \<open>
  The cells of a row after an assignment of JavaScript values to some columns: a column
  that is assigned gets the value as the engine stores it, any other column the value
  \<open>other\<close> gives it.
\<close>

definition assign_cells ::
  "engine \<Rightarrow> table \<Rightarrow> (string \<times> jsval) list \<Rightarrow> (column \<Rightarrow> sqlval) \<Rightarrow> row" where
  "assign_cells eng t asg other =
     map (\<lambda>col. (cname col,
                 (case map_of asg (cname col) of
                    None \<Rightarrow> other col
                  | Some v \<Rightarrow> store eng col v)))
         (tcols t)"

text \<open>
  The table after the insert of a row with an assignment: the new row has the row id
  that the engine gives it, and the record of an \<^verbatim>\<open>AUTOINCREMENT\<close> table keeps up with it.
\<close>

definition table_after_insert :: "engine \<Rightarrow> table \<Rightarrow> (string \<times> jsval) list \<Rightarrow> table" where
  "table_after_insert eng t asg =
     (let rid = new_rowid eng t;
          r = assign_cells eng t asg (\<lambda>col. fill eng col rid)
      in t\<lparr>trows := trows t @ [(rid, r)], tseq := map_option (max rid) (tseq t)\<rparr>)"

text \<open>
  The table after the update of the rows that \<open>hit\<close> selects: each of them has the
  assigned columns changed and the other columns as they were.
\<close>

definition table_after_update ::
  "engine \<Rightarrow> table \<Rightarrow> (row \<Rightarrow> bool) \<Rightarrow> (string \<times> jsval) list \<Rightarrow> table" where
  "table_after_update eng t hit asg =
     t\<lparr>trows := map (\<lambda>(i, r).
                    if hit r then (i, assign_cells eng t asg (\<lambda>col. cell (cname col) r))
                    else (i, r))
                  (trows t)\<rparr>"

text \<open>
  \<^verbatim>\<open>INSERT INTO table (columns) VALUES (?, ...)\<close>, run by \<^verbatim>\<open>db.run\<close>: the new database and
  \<^verbatim>\<open>this.lastID\<close>, the row id of the new row; an error, and no change, when the table
  with the new row violates a constraint. The routes never name the row-id column
  itself in the column list, so the row id is always the engine's.
\<close>

definition sql_insert ::
  "engine \<Rightarrow> database \<Rightarrow> string \<Rightarrow> string list \<Rightarrow> jsval list \<Rightarrow> (database \<times> int) option" where
  "sql_insert eng d tq cqs vals =
     (case lookup_table d tq of
        None \<Rightarrow> None
      | Some (n, t) \<Rightarrow>
          (case unquoteAll cqs of
             None \<Rightarrow> None
           | Some cs \<Rightarrow>
               if cs = [] \<or> length cs \<noteq> length vals \<or>
                  (\<exists>c \<in> set cs. find_column t c = None) then None
               else
                 (let t' = table_after_insert eng t (zip cs vals)
                  in if accepts eng t' then Some (d(n \<mapsto> t'), new_rowid eng t) else None)))"

text \<open>
  \<^verbatim>\<open>UPDATE table SET column = ?, ... WHERE column = ?\<close>: the new database and
  \<^verbatim>\<open>this.changes\<close>, the number of rows that matched; an error, and no change, when rows
  matched and the table with the changed rows violates a constraint.
\<close>

definition sql_update ::
  "engine \<Rightarrow> database \<Rightarrow> string \<Rightarrow> string list \<Rightarrow> string \<Rightarrow> jsval list \<Rightarrow> string \<Rightarrow>
     (database \<times> nat) option" where
  "sql_update eng d tq cqs wq vals param =
     (case lookup_table d tq of
        None \<Rightarrow> None
      | Some (n, t) \<Rightarrow>
          (case unquoteAll cqs of
             None \<Rightarrow> None
           | Some cs \<Rightarrow>
               (case unquoteIdentifier wq of
                  None \<Rightarrow> None
                | Some w \<Rightarrow>
                    (case find_column t w of
                       None \<Rightarrow> None
                     | Some wcol \<Rightarrow>
                         if cs = [] \<or> length cs \<noteq> length vals \<or>
                            (\<exists>c \<in> set cs. find_column t c = None) then None
                         else
                           (let hit = (\<lambda>r. matches eng wcol (cell w r) param);
                                t' = table_after_update eng t hit (zip cs vals);
                                changes = length (filter (\<lambda>(i, r). hit r) (trows t))
                            in if changes \<noteq> 0 \<and> \<not> accepts eng t' then None
                               else Some (d(n \<mapsto> t'), changes))))))"

text \<open>
  \<^verbatim>\<open>DELETE FROM table WHERE column = ?\<close>: the new database and \<^verbatim>\<open>this.changes\<close>. No
  table of the model refers to another, so a delete violates no constraint.
\<close>

definition sql_delete ::
  "engine \<Rightarrow> database \<Rightarrow> string \<Rightarrow> string \<Rightarrow> string \<Rightarrow> (database \<times> nat) option" where
  "sql_delete eng d tq wq param =
     (case lookup_table d tq of
        None \<Rightarrow> None
      | Some (n, t) \<Rightarrow>
          (case unquoteIdentifier wq of
             None \<Rightarrow> None
           | Some w \<Rightarrow>
               (case find_column t w of
                  None \<Rightarrow> None
                | Some wcol \<Rightarrow>
                    (let hit = (\<lambda>r. matches eng wcol (cell w r) param)
                     in Some (d(n \<mapsto> t\<lparr>trows := filter (\<lambda>(i, r). \<not> hit r) (trows t)\<rparr>),
                              length (filter (\<lambda>(i, r). hit r) (trows t)))))))"

text \<open>
  \<^verbatim>\<open>SELECT * FROM table WHERE CAST(c1 AS TEXT) LIKE ? OR CAST(c2 AS TEXT) LIKE ? ...\<close>:
  one condition for each column identifier, the i-th parameter bound to the i-th
  question mark; the rows for which one of the conditions is true, in storage order.
\<close>

definition sql_select_like ::
  "database \<Rightarrow> string \<Rightarrow> string list \<Rightarrow> string list \<Rightarrow> row list option" where
  "sql_select_like d tq cqs params =
     (case lookup_table d tq of
        None \<Rightarrow> None
      | Some (n, t) \<Rightarrow>
          (case unquoteAll cqs of
             None \<Rightarrow> None
           | Some cs \<Rightarrow>
               if cs = [] \<or> length cs \<noteq> length params \<or>
                  (\<exists>c \<in> set cs. find_column t c = None) then None
               else Some (filter (\<lambda>r. \<exists>(c, pat) \<in> set (zip cs params). cast_like c pat r)
                            (map snd (trows t)))))"

section \<open>The API server: the generic routes\<close>

text \<open>
  The state of the server process is the metadata cache and the database behind the one
  connection. A route handler takes the state and the parameters of the request and
  returns the reply it sends and the new state. Requests are handled one at a time, each
  with its callbacks run to the end before the next request starts.
\<close>

record meta =
  columns :: "string list"
  primaryKey :: "string option"

record server =
  metadataCache :: "string \<rightharpoonup> meta"
  db :: database

text \<open>
  What \<^verbatim>\<open>res.send\<close> is given: a plain text, the rows of a query, one row, an object built
  from request values (its properties in the order of their creation), the metadata, or
  nothing.
\<close>

datatype body =
    Plain string
  | JsonRows "row list"
  | JsonRow row
  | JsonObject "(string \<times> jsval) list"
  | JsonMeta meta
  | NoBody

record reply =
  code :: nat
  sent :: body

text \<open>
  A string in a condition is true unless it is empty; \<^verbatim>\<open>null\<close> is false. The name of
  the primary key when \<^verbatim>\<open>meta.primaryKey\<close> is true in a condition:
\<close>

definition truthy_key :: "meta \<Rightarrow> string option" where
  "truthy_key m = (case primaryKey m of None \<Rightarrow> None | Some k \<Rightarrow> if k = [] then None else Some k)"

text \<open>
  The metadata of a table from the rows of \<^verbatim>\<open>PRAGMA table_info\<close>:
  \<^verbatim>\<open>const columns = rows.map((r) => r.name);
  const pkRow = rows.find((r) => r.pk === 1) || rows.find((r) => r.pk > 0);
  const primaryKey = pkRow ? pkRow.name : (columns.includes('id') ? 'id' : null);
  const meta = { columns, primaryKey };\<close>
\<close>

definition meta_of_rows :: "column list \<Rightarrow> meta" where
  "meta_of_rows rows =
     (let columns = map cname rows;
          pkRow = (case find (\<lambda>r. cpk r = 1) rows of
                     Some r \<Rightarrow> Some r
                   | None \<Rightarrow> find (\<lambda>r. cpk r > 0) rows);
          primaryKey = (case pkRow of
                          Some r \<Rightarrow> Some (cname r)
                        | None \<Rightarrow> if ''id'' \<in> set columns then Some ''id'' else None)
      in \<lparr>columns = columns, primaryKey = primaryKey\<rparr>)"

text \<open>
  \<^verbatim>\<open>function getTableMetadata(tableName, callback) {
    if (!tableName) return callback(new Error('Table name is required'));
    if (metadataCache.has(tableName)) return callback(null, metadataCache.get(tableName));
    db.get("SELECT name FROM sqlite_master WHERE type='table' AND name = ?", [tableName],
      (err, row) => {
        if (err) return callback(err);
        if (!row) return callback(new Error(`Table not found: ${tableName}`));
        const pragmaSql = `PRAGMA table_info(${quoteIdentifier(tableName)})`;
        db.all(pragmaSql, [], (pragmaErr, rows) => {
          if (pragmaErr) return callback(pragmaErr);
          if (!rows || rows.length === 0)
            return callback(new Error(`No columns found for ${tableName}`));
          ...
          metadataCache.set(tableName, meta);
          callback(null, meta);
        });
      });
  }\<close>
  The callback receives an error message (left) or the metadata (right). The catalogue
  query of the model cannot fail, so its error branch has no counterpart; a failure of
  the pragma passes the engine's message on.
\<close>

definition getTableMetadata :: "server \<Rightarrow> string \<Rightarrow> (string + meta) \<times> server" where
  "getTableMetadata st tableName =
     (if tableName = [] then (Inl ''Table name is required'', st)
      else
        (case metadataCache st tableName of
           Some m \<Rightarrow> (Inr m, st)
         | None \<Rightarrow>
             (case sql_master_lookup (db st) tableName of
                None \<Rightarrow> (Inl (''Table not found: '' @ tableName), st)
              | Some row \<Rightarrow>
                  (case sql_table_info (db st) (quoteIdentifier tableName) of
                     None \<Rightarrow> (Inl ''SQLITE_ERROR'', st)
                   | Some rows \<Rightarrow>
                       if rows = [] then (Inl (''No columns found for '' @ tableName), st)
                       else
                         (let m = meta_of_rows rows
                          in (Inr m,
                              st\<lparr>metadataCache := (metadataCache st)(tableName \<mapsto> m)\<rparr>))))))"

text \<open>\<^verbatim>\<open>app.get('/api/:table/meta')\<close>\<close>

definition api_meta :: "server \<Rightarrow> string \<Rightarrow> reply \<times> server" where
  "api_meta st tbl =
     (case getTableMetadata st tbl of
        (Inl msg, st') \<Rightarrow> (\<lparr>code = 400, sent = Plain msg\<rparr>, st')
      | (Inr m, st') \<Rightarrow> (\<lparr>code = 200, sent = JsonMeta m\<rparr>, st'))"

text \<open>
  \<^verbatim>\<open>app.get('/api/:table', (req, res) => {
    const { table } = req.params;
    getTableMetadata(table, (err, meta) => {
      if (err) return res.status(400).send(err.message);
      const orderBy = meta.primaryKey ? ` ORDER BY ${quoteIdentifier(meta.primaryKey)} DESC` : '';
      const sql = `SELECT * FROM ${quoteIdentifier(table)}${orderBy}`;
      db.all(sql, [], (qErr, rows) => {
        if (qErr) return res.status(500).send('Internal server error');
        res.send(rows || []);
      });
    });
  });\<close>
\<close>

definition api_list :: "server \<Rightarrow> string \<Rightarrow> reply \<times> server" where
  "api_list st tbl =
     (case getTableMetadata st tbl of
        (Inl msg, st') \<Rightarrow> (\<lparr>code = 400, sent = Plain msg\<rparr>, st')
      | (Inr m, st') \<Rightarrow>
          (let orderBy = map_option quoteIdentifier (truthy_key m)
           in (case sql_select_all (db st') (quoteIdentifier tbl) orderBy of
                 None \<Rightarrow> (\<lparr>code = 500, sent = Plain ''Internal server error''\<rparr>, st')
               | Some rows \<Rightarrow> (\<lparr>code = 200, sent = JsonRows rows\<rparr>, st'))))"

text \<open>
  \<^verbatim>\<open>app.get('/api/:table/:id')\<close>: \<^verbatim>\<open>db.get\<close> hands over the first row of the result, or
  nothing.
\<close>

definition api_get :: "engine \<Rightarrow> server \<Rightarrow> string \<Rightarrow> string \<Rightarrow> reply \<times> server" where
  "api_get eng st tbl ident =
     (case getTableMetadata st tbl of
        (Inl msg, st') \<Rightarrow> (\<lparr>code = 400, sent = Plain msg\<rparr>, st')
      | (Inr m, st') \<Rightarrow>
          (case truthy_key m of
             None \<Rightarrow> (\<lparr>code = 400, sent = Plain ''Primary key not found for this table''\<rparr>, st')
           | Some pk \<Rightarrow>
               (case sql_select_where eng (db st') (quoteIdentifier tbl) (quoteIdentifier pk) ident of
                  None \<Rightarrow> (\<lparr>code = 500, sent = Plain ''Internal server error''\<rparr>, st')
                | Some [] \<Rightarrow> (\<lparr>code = 404, sent = Plain ''Item not found''\<rparr>, st')
                | Some (r # rest) \<Rightarrow> (\<lparr>code = 200, sent = JsonRow r\<rparr>, st'))))"

text \<open>
  The keys a request may write: the columns other than the primary key that the body has
  as its own properties, in column order; and the body's values for them.
  \<^verbatim>\<open>const insertable = meta.columns.filter((c) => c !== meta.primaryKey);
  const keys = insertable.filter((c) => Object.prototype.hasOwnProperty.call(req.body, c));
  const values = keys.map((k) => req.body[k]);\<close>
\<close>

definition body_keys :: "meta \<Rightarrow> (string \<rightharpoonup> jsval) \<Rightarrow> string list" where
  "body_keys m reqBody =
     (let insertable = filter (\<lambda>c. Some c \<noteq> primaryKey m) (columns m)
      in filter (\<lambda>c. reqBody c \<noteq> None) insertable)"

definition body_values :: "(string \<rightharpoonup> jsval) \<Rightarrow> string list \<Rightarrow> jsval list" where
  "body_values reqBody keys =
     map (\<lambda>k. case reqBody k of None \<Rightarrow> Undefined | Some v \<Rightarrow> v) keys"

text \<open>
  \<^verbatim>\<open>app.post('/api/:table', (req, res) => {
    const { table } = req.params;
    getTableMetadata(table, (err, meta) => {
      if (err) return res.status(400).send(err.message);
      const insertable = ...; const keys = ...;
      if (keys.length === 0) return res.status(400).send('No valid columns provided in request body');
      const columnClause = keys.map(quoteIdentifier).join(', ');
      const placeholders = keys.map(() => '?').join(', ');
      const values = keys.map((k) => req.body[k]);
      const sql = `INSERT INTO ${quoteIdentifier(table)} (${columnClause}) VALUES (${placeholders})`;
      db.run(sql, values, function(runErr) {
        if (runErr) return res.status(500).send('Internal server error');
        const response = Object.fromEntries(keys.map((k, i) => [k, values[i]]));
        if (meta.primaryKey) response[meta.primaryKey] = this.lastID;
        res.status(201).send(response);
      });
    });
  });\<close>
\<close>

definition api_create ::
  "engine \<Rightarrow> server \<Rightarrow> string \<Rightarrow> (string \<rightharpoonup> jsval) \<Rightarrow> reply \<times> server" where
  "api_create eng st tbl reqBody =
     (case getTableMetadata st tbl of
        (Inl msg, st') \<Rightarrow> (\<lparr>code = 400, sent = Plain msg\<rparr>, st')
      | (Inr m, st') \<Rightarrow>
          (let keys = body_keys m reqBody in
           if keys = []
           then (\<lparr>code = 400, sent = Plain ''No valid columns provided in request body''\<rparr>, st')
           else
             (let values = body_values reqBody keys in
              case sql_insert eng (db st') (quoteIdentifier tbl) (map quoteIdentifier keys) values of
                None \<Rightarrow> (\<lparr>code = 500, sent = Plain ''Internal server error''\<rparr>, st')
              | Some (d, lastID) \<Rightarrow>
                  (let response = zip keys values;
                       response' = (case truthy_key m of
                                      None \<Rightarrow> response
                                    | Some pk \<Rightarrow> response @ [(pk, JNum lastID)])
                   in (\<lparr>code = 201, sent = JsonObject response'\<rparr>, st'\<lparr>db := d\<rparr>)))))"

text \<open>
  \<^verbatim>\<open>app.put('/api/:table/:id', (req, res) => {
    const { table, id } = req.params;
    getTableMetadata(table, (err, meta) => {
      if (err) return res.status(400).send(err.message);
      if (!meta.primaryKey) return res.status(400).send('Primary key not found for this table');
      const updatable = ...; const keys = ...;
      if (keys.length === 0) return res.status(400).send('No updatable columns provided in request body');
      const setClause = keys.map((c) => `${quoteIdentifier(c)} = ?`).join(', ');
      const values = keys.map((k) => req.body[k]);
      const sql = `UPDATE ${quoteIdentifier(table)} SET ${setClause} WHERE ${quoteIdentifier(meta.primaryKey)} = ?`;
      db.run(sql, [...values, id], function(runErr) {
        if (runErr) return res.status(500).send('Internal server error');
        if (this.changes === 0) return res.status(404).send('Item not found');
        const response = Object.fromEntries(keys.map((k, i) => [k, values[i]]));
        response[meta.primaryKey] = id;
        res.status(200).send(response);
      });
    });
  });\<close>
\<close>

definition api_update ::
  "engine \<Rightarrow> server \<Rightarrow> string \<Rightarrow> string \<Rightarrow> (string \<rightharpoonup> jsval) \<Rightarrow> reply \<times> server" where
  "api_update eng st tbl ident reqBody =
     (case getTableMetadata st tbl of
        (Inl msg, st') \<Rightarrow> (\<lparr>code = 400, sent = Plain msg\<rparr>, st')
      | (Inr m, st') \<Rightarrow>
          (case truthy_key m of
             None \<Rightarrow> (\<lparr>code = 400, sent = Plain ''Primary key not found for this table''\<rparr>, st')
           | Some pk \<Rightarrow>
               (let keys = body_keys m reqBody in
                if keys = []
                then (\<lparr>code = 400,
                       sent = Plain ''No updatable columns provided in request body''\<rparr>, st')
                else
                  (let values = body_values reqBody keys in
                   case sql_update eng (db st') (quoteIdentifier tbl) (map quoteIdentifier keys)
                          (quoteIdentifier pk) values ident of
                     None \<Rightarrow> (\<lparr>code = 500, sent = Plain ''Internal server error''\<rparr>, st')
                   | Some (d, changes) \<Rightarrow>
                       if changes = 0
                       then (\<lparr>code = 404, sent = Plain ''Item not found''\<rparr>, st'\<lparr>db := d\<rparr>)
                       else (\<lparr>code = 200,
                              sent = JsonObject (zip keys values @ [(pk, JStr ident)])\<rparr>,
                             st'\<lparr>db := d\<rparr>)))))"

text \<open>\<^verbatim>\<open>app.delete('/api/:table/:id')\<close>\<close>

definition api_delete :: "engine \<Rightarrow> server \<Rightarrow> string \<Rightarrow> string \<Rightarrow> reply \<times> server" where
  "api_delete eng st tbl ident =
     (case getTableMetadata st tbl of
        (Inl msg, st') \<Rightarrow> (\<lparr>code = 400, sent = Plain msg\<rparr>, st')
      | (Inr m, st') \<Rightarrow>
          (case truthy_key m of
             None \<Rightarrow> (\<lparr>code = 400, sent = Plain ''Primary key not found for this table''\<rparr>, st')
           | Some pk \<Rightarrow>
               (case sql_delete eng (db st') (quoteIdentifier tbl) (quoteIdentifier pk) ident of
                  None \<Rightarrow> (\<lparr>code = 500, sent = Plain ''Internal server error''\<rparr>, st')
                | Some (d, changes) \<Rightarrow>
                    if changes = 0
                    then (\<lparr>code = 404, sent = Plain ''Item not found''\<rparr>, st'\<lparr>db := d\<rparr>)
                    else (\<lparr>code = 204, sent = NoBody\<rparr>, st'\<lparr>db := d\<rparr>))))"

text \<open>
  \<^verbatim>\<open>app.get('/api/:table/search/:q', (req, res) => {
    const { table, q } = req.params;
    getTableMetadata(table, (err, meta) => {
      if (err) return res.status(400).send(err.message);
      const like = `%${q}%`;
      const where = meta.columns.map((c) => `CAST(${quoteIdentifier(c)} AS TEXT) LIKE ?`).join(' OR ');
      const sql = `SELECT * FROM ${quoteIdentifier(table)} WHERE ${where}`;
      const params = meta.columns.map(() => like);
      db.all(sql, params, (qErr, rows) => {
        if (qErr) return res.status(500).send('Internal server error');
        res.send(rows || []);
      });
    });
  });\<close>
\<close>

definition api_search :: "server \<Rightarrow> string \<Rightarrow> string \<Rightarrow> reply \<times> server" where
  "api_search st tbl q =
     (case getTableMetadata st tbl of
        (Inl msg, st') \<Rightarrow> (\<lparr>code = 400, sent = Plain msg\<rparr>, st')
      | (Inr m, st') \<Rightarrow>
          (let like_pattern = CHR ''%'' # q @ ''%'';
               where_columns = map quoteIdentifier (columns m);
               params = map (\<lambda>c. like_pattern) (columns m)
           in (case sql_select_like (db st') (quoteIdentifier tbl) where_columns params of
                 None \<Rightarrow> (\<lparr>code = 500, sent = Plain ''Internal server error''\<rparr>, st')
               | Some rows \<Rightarrow> (\<lparr>code = 200, sent = JsonRows rows\<rparr>, st'))))"

text \<open>The requests of the generic routes, and the server handling a sequence of them.\<close>

datatype api_request =
    GetMeta string
  | GetList string
  | GetOne string string
  | Post string "string \<rightharpoonup> jsval"
  | Put string string "string \<rightharpoonup> jsval"
  | Delete string string
  | Search string string

fun handle :: "engine \<Rightarrow> server \<Rightarrow> api_request \<Rightarrow> reply \<times> server" where
  "handle eng st (GetMeta t) = api_meta st t"
| "handle eng st (GetList t) = api_list st t"
| "handle eng st (GetOne t i) = api_get eng st t i"
| "handle eng st (Post t b) = api_create eng st t b"
| "handle eng st (Put t i b) = api_update eng st t i b"
| "handle eng st (Delete t i) = api_delete eng st t i"
| "handle eng st (Search t q) = api_search st t q"

fun serve :: "engine \<Rightarrow> server \<Rightarrow> api_request list \<Rightarrow> server" where
  "serve eng st [] = st"
| "serve eng st (r # rs) = serve eng (snd (handle eng st r)) rs"

text \<open>
  The tables are created outside the server, each with at least one column. The state of
  the server is consistent when every table has a column and every cache entry holds
  the metadata of a table of the database, under its name. This is so when the server
  starts (the cache is empty) and every route keeps it so, since no route changes a
  schema.
\<close>

definition consistent :: "server \<Rightarrow> bool" where
  "consistent st =
     ((\<forall>n t. db st n = Some t \<longrightarrow> tcols t \<noteq> []) \<and>
      (\<forall>n m. metadataCache st n = Some m \<longrightarrow>
         n \<noteq> [] \<and> (\<exists>t. db st n = Some t \<and> m = meta_of_rows (tcols t))))"

section \<open>Vocabulary of the specification\<close>

text \<open>A string contains another as a substring: some text stands before it and some after.\<close>

definition has_substring :: "string \<Rightarrow> string \<Rightarrow> bool" where
  "has_substring s t = (\<exists>a b. s = a @ t @ b)"

text \<open>
  An accessor checks the status of the one response it asks for: it has sent exactly
  one request; if the response to it has a non-success status the accessor throws an
  \<^verbatim>\<open>Error\<close> whose message is \<open>msg\<close> of the status; and if the status is a success it
  hands the response to \<open>ret\<close>.
\<close>

definition checks_status ::
  "('p request \<Rightarrow> 'j response option) \<Rightarrow> (js_error + 'a) \<times> 'p request list \<Rightarrow>
     (nat \<Rightarrow> string) \<Rightarrow> ('j response \<Rightarrow> js_error + 'a) \<Rightarrow> bool" where
  "checks_status fetch out msg ret =
     (\<exists>req. snd out = [req] \<and>
        (\<forall>r. fetch req = Some r \<longrightarrow>
           (if ok r then fst out = ret r else fst out = Inl (Error (msg (status r))))))"

text \<open>
  Rows are in descending order of a column when no row is followed by one with a larger
  value of the column, and in strictly descending order when each row is followed only
  by rows with a smaller value.
\<close>

definition descending_by :: "string \<Rightarrow> row list \<Rightarrow> bool" where
  "descending_by k rs = sorted_wrt (\<lambda>a b. val_le (cell k b) (cell k a)) rs"

definition strictly_descending_by :: "string \<Rightarrow> row list \<Rightarrow> bool" where
  "strictly_descending_by k rs =
     sorted_wrt (\<lambda>a b. val_le (cell k b) (cell k a) \<and> \<not> val_le (cell k a) (cell k b)) rs"


text \<open>The first column that the engine flags as part of the primary key, in column order.\<close>

definition first_flagged :: "column list \<Rightarrow> string option" where
  "first_flagged cols = map_option cname (find (\<lambda>c. cpk c > 0) cols)"



section \<open>A small database for the examples\<close>

text \<open>
  An engine for the examples: a bound number or boolean is stored as an integer, a bound
  string as a text; a column left out of an insert receives the row id when it is the
  \<^verbatim>\<open>INTEGER PRIMARY KEY\<close> and \<^verbatim>\<open>NULL\<close> otherwise; a stored integer equals a text
  parameter that is its decimal form, a stored text one that is the same text; a new
  row id is one more than the largest in the table and, in an \<^verbatim>\<open>AUTOINCREMENT\<close> table,
  than the largest ever assigned; and a table is accepted when no \<^verbatim>\<open>NOT NULL\<close> column
  holds \<^verbatim>\<open>NULL\<close> and no \<^verbatim>\<open>UNIQUE\<close> column holds a value twice.
\<close>

definition largest_rowid :: "table \<Rightarrow> int" where
  "largest_rowid t = foldl max (case tseq t of None \<Rightarrow> 0 | Some s \<Rightarrow> s) (map fst (trows t))"

definition column_holds :: "table \<Rightarrow> column \<Rightarrow> bool" where
  "column_holds t col =
     (let vs = map (\<lambda>(i, r). cell (cname col) r) (trows t)
      in (cnotnull col \<longrightarrow> Null \<notin> set vs) \<and>
         (cunique col \<longrightarrow> distinct (filter (\<lambda>v. v \<noteq> Null) vs)))"

definition plain_engine :: engine where
  "plain_engine =
     \<lparr>store = (\<lambda>col v. case v of
                  JNum i \<Rightarrow> Integer i
                | JStr s \<Rightarrow> Text s
                | JBool b \<Rightarrow> Integer (if b then 1 else 0)
                | JNull \<Rightarrow> Null
                | Undefined \<Rightarrow> Null),
      fill = (\<lambda>col rid. if cpk col = 1 \<and> ctype col = ''INTEGER'' then Integer rid else Null),
      matches = (\<lambda>col v s. case v of
                  Null \<Rightarrow> False
                | Integer i \<Rightarrow> string_of_int i = s
                | Text t \<Rightarrow> t = s),
      new_rowid = (\<lambda>t. largest_rowid t + 1),
      accepts = (\<lambda>t. list_all (column_holds t) (tcols t))\<rparr>"

text \<open>\<^verbatim>\<open>CREATE TABLE products (id INTEGER PRIMARY KEY, name TEXT, price INTEGER)\<close>, two rows.\<close>

definition products :: table where
  "products =
     \<lparr>tcols = [\<lparr>cname = ''id'', ctype = ''INTEGER'', cnotnull = False, cpk = 1, cunique = True\<rparr>,
               \<lparr>cname = ''name'', ctype = ''TEXT'', cnotnull = False, cpk = 0, cunique = False\<rparr>,
               \<lparr>cname = ''price'', ctype = ''INTEGER'', cnotnull = False, cpk = 0,
                cunique = False\<rparr>],
      trows = [(1, [(''id'', Integer 1), (''name'', Text ''Alpha''), (''price'', Integer 10)]),
               (2, [(''id'', Integer 2), (''name'', Text ''beta''), (''price'', Integer 25)])],
      tseq = None\<rparr>"

text \<open>
  \<^verbatim>\<open>CREATE TABLE memos (title TEXT NOT NULL, remark TEXT)\<close>: no primary key and no column
  \<^verbatim>\<open>id\<close>.
\<close>

definition memos :: table where
  "memos =
     \<lparr>tcols = [\<lparr>cname = ''title'', ctype = ''TEXT'', cnotnull = True, cpk = 0, cunique = False\<rparr>,
               \<lparr>cname = ''remark'', ctype = ''TEXT'', cnotnull = False, cpk = 0,
                cunique = False\<rparr>],
      trows = [(1, [(''title'', Text ''Alpha''), (''remark'', Null)])],
      tseq = None\<rparr>"

text \<open>
  \<^verbatim>\<open>CREATE TABLE tags (id INTEGER, label TEXT)\<close>: no declared primary key, a column \<^verbatim>\<open>id\<close>
  whose values repeat.
\<close>

definition tags :: table where
  "tags =
     \<lparr>tcols = [\<lparr>cname = ''id'', ctype = ''INTEGER'', cnotnull = False, cpk = 0, cunique = False\<rparr>,
               \<lparr>cname = ''label'', ctype = ''TEXT'', cnotnull = False, cpk = 0,
                cunique = False\<rparr>],
      trows = [(1, [(''id'', Integer 7), (''label'', Text ''red'')]),
               (2, [(''id'', Integer 7), (''label'', Text ''blue'')])],
      tseq = None\<rparr>"

text \<open>
  \<^verbatim>\<open>CREATE TABLE pairs (a TEXT, b TEXT, PRIMARY KEY (b, a))\<close>: \<^verbatim>\<open>PRAGMA table_info\<close> reports
  \<^verbatim>\<open>pk = 2\<close> for the column \<^verbatim>\<open>a\<close> and \<^verbatim>\<open>pk = 1\<close> for the column \<^verbatim>\<open>b\<close>.
\<close>

definition pairs :: table where
  "pairs =
     \<lparr>tcols = [\<lparr>cname = ''a'', ctype = ''TEXT'', cnotnull = False, cpk = 2, cunique = False\<rparr>,
               \<lparr>cname = ''b'', ctype = ''TEXT'', cnotnull = False, cpk = 1, cunique = False\<rparr>],
      trows = [],
      tseq = None\<rparr>"

text \<open>
  The table of units of the guide to a new domain table,
  \<^verbatim>\<open>CREATE TABLE units (id INTEGER PRIMARY KEY AUTOINCREMENT,
                           unitofmeasurement TEXT NOT NULL UNIQUE)\<close>, with two of its rows.
\<close>

definition units :: table where
  "units =
     \<lparr>tcols = [\<lparr>cname = ''id'', ctype = ''INTEGER'', cnotnull = False, cpk = 1, cunique = True\<rparr>,
               \<lparr>cname = ''unitofmeasurement'', ctype = ''TEXT'', cnotnull = True, cpk = 0,
                cunique = True\<rparr>],
      trows = [(1, [(''id'', Integer 1), (''unitofmeasurement'', Text ''Percentage'')]),
               (2, [(''id'', Integer 2), (''unitofmeasurement'', Text ''Count'')])],
      tseq = Some 2\<rparr>"

definition shop :: database where
  "shop = [''products'' \<mapsto> products, ''memos'' \<mapsto> memos, ''tags'' \<mapsto> tags, ''pairs'' \<mapsto> pairs,
           ''units'' \<mapsto> units]"

text \<open>The server as it starts on this database: nothing is cached.\<close>

definition fresh :: server where
  "fresh = \<lparr>metadataCache = Map.empty, db = shop\<rparr>"

section \<open>Properties of the string functions\<close>

lemma startsWith_iff: "startsWith s t \<longleftrightarrow> (\<exists>b. s = t @ b)"
  by (induction s t rule: startsWith.induct) auto

lemma includes_iff: "includesStr s t \<longleftrightarrow> (\<exists>a b. s = a @ t @ b)"
proof (induction s)
  case Nil
  then show ?case by simp
next
  case (Cons c s)
  show ?case
  proof
    assume "includesStr (c # s) t"
    then consider "startsWith (c # s) t" | "includesStr s t" by auto
    then show "\<exists>a b. c # s = a @ t @ b"
    proof cases
      case 1
      then obtain b where "c # s = t @ b" by (auto simp: startsWith_iff)
      then have "c # s = [] @ t @ b" by simp
      then show ?thesis by blast
    next
      case 2
      then obtain a b where "s = a @ t @ b" using Cons.IH by blast
      then have "c # s = (c # a) @ t @ b" by simp
      then show ?thesis by blast
    qed
  next
    assume "\<exists>a b. c # s = a @ t @ b"
    then obtain a b where ab: "c # s = a @ t @ b" by blast
    show "includesStr (c # s) t"
    proof (cases a)
      case Nil
      with ab have "startsWith (c # s) t" by (auto simp: startsWith_iff)
      then show ?thesis by simp
    next
      case (Cons d a')
      with ab have "s = a' @ t @ b" by simp
      then have "includesStr s t" using Cons.IH by blast
      then show ?thesis by simp
    qed
  qed
qed

section \<open>Identifier quoting\<close>

lemma replace_dquotes_concat:
  "replace_dquotes s = concat (map (\<lambda>c. if c = dquote then [dquote, dquote] else [c]) s)"
  by (induction s) simp_all

lemma length_replace_dquotes:
  "length (replace_dquotes s) = length s + count_list s dquote"
  by (induction s) simp_all

text \<open>
  C6. For every string \<open>name\<close>, \<open>quoteIdentifier name\<close> is the name with every double quote
  doubled, between one leading and one trailing double quote (so it is longer than the
  name by two and by the number of its double quotes); for the name \<^verbatim>\<open>a"b\<close> it is the six
  characters double quote, a, double quote, double quote, b, double quote.
\<close>

theorem quoteIdentifier_doubles_and_wraps:
  "quoteIdentifier name =
     [dquote] @ concat (map (\<lambda>c. if c = dquote then [dquote, dquote] else [c]) name) @ [dquote]
   \<and> length (quoteIdentifier name) = length name + count_list name dquote + 2
   \<and> quoteIdentifier [CHR ''a'', dquote, CHR ''b''] =
       [dquote, CHR ''a'', dquote, dquote, CHR ''b'', dquote]"
proof -
  have "quoteIdentifier [CHR ''a'', dquote, CHR ''b''] =
       [dquote, CHR ''a'', dquote, dquote, CHR ''b'', dquote]"
    by (simp add: quoteIdentifier_def dquote_def)
  then show ?thesis
    by (simp add: quoteIdentifier_def replace_dquotes_concat [symmetric]
        length_replace_dquotes)
qed

section \<open>Type inference from a field name\<close>

lemma includesStr_has_substring: "includesStr s t = has_substring s t"
  by (simp add: includes_iff has_substring_def)

text \<open>
  C7. For every field name, \<open>inferFieldType\<close> lower-cases the name and answers "email" if
  the lower-cased name contains "email" or "mail"; otherwise "number" if it contains one
  of "id", "count", "number", "price", "amount", "quantity"; otherwise "text". The column
  name "countryname" is classified "number", since it contains "count".
\<close>

theorem inferFieldType_classifies:
  "inferFieldType fieldName =
     (if has_substring (toLowerCase fieldName) ''email'' \<or>
         has_substring (toLowerCase fieldName) ''mail'' then ''email''
      else if has_substring (toLowerCase fieldName) ''id'' \<or>
              has_substring (toLowerCase fieldName) ''count'' \<or>
              has_substring (toLowerCase fieldName) ''number'' \<or>
              has_substring (toLowerCase fieldName) ''price'' \<or>
              has_substring (toLowerCase fieldName) ''amount'' \<or>
              has_substring (toLowerCase fieldName) ''quantity'' then ''number''
      else ''text'')
   \<and> inferFieldType ''countryname'' = ''number''
   \<and> inferFieldType ''E-Mail'' = ''email''
   \<and> inferFieldType ''Title'' = ''text''"
proof -
  have general: "inferFieldType fieldName =
     (if has_substring (toLowerCase fieldName) ''email'' \<or>
         has_substring (toLowerCase fieldName) ''mail'' then ''email''
      else if has_substring (toLowerCase fieldName) ''id'' \<or>
              has_substring (toLowerCase fieldName) ''count'' \<or>
              has_substring (toLowerCase fieldName) ''number'' \<or>
              has_substring (toLowerCase fieldName) ''price'' \<or>
              has_substring (toLowerCase fieldName) ''amount'' \<or>
              has_substring (toLowerCase fieldName) ''quantity'' then ''number''
      else ''text'')"
    unfolding inferFieldType_def Let_def includesStr_has_substring ..
  have country: "inferFieldType ''countryname'' = ''number''"
    by code_simp
  have mail: "inferFieldType ''E-Mail'' = ''email''"
    by code_simp
  have title: "inferFieldType ''Title'' = ''text''"
    by code_simp
  from general country mail title show ?thesis by blast
qed

section \<open>The integer rule\<close>

text \<open>
  C8. The integer rule is meant to reject every non-empty value that is not a base-10
  integer with no fractional part, "3.7" for one. The code gives the value to
  \<^verbatim>\<open>parseInt\<close>, which reads the leading digits and drops the rest, and then asks
  \<^verbatim>\<open>Number.isInteger\<close> of the result, which is an integer whenever it is a number: "3.7"
  parses to 3 and passes, and so do "12abc" and the hexadecimal "0x1f".
\<close>

theorem validateInteger_accepts_fraction:
  "parseInt ''3.7'' = Num 3
   \<and> validateInteger ''3.7'' ''quantity'' = Inr True
   \<and> validateInteger ''12abc'' ''quantity'' = Inr True
   \<and> validateInteger ''0x1f'' ''quantity'' = Inr True
   \<and> validateInteger ''abc'' ''quantity'' =
       Inl (ValidationError ''quantity must be a valid integer'' ''quantity'')
   \<and> validateInteger ''   '' ''quantity'' = Inr True
   \<and> validateInteger [] ''quantity'' = Inr True"
  by (simp add: validateInteger_def trim_def isWhiteSpace_def parseInt_def digitValue_def)

section \<open>The data-access module checks the status\<close>

lemma checks_status_createItem:
  "checks_status fetch (createItem fetch t p)
     (\<lambda>n. ''Create failed: '' @ string_of_nat n) Inr"
  unfolding checks_status_def createItem_def Let_def by (auto split: option.splits)

lemma checks_status_updateItem:
  "checks_status fetch (updateItem fetch t k p)
     (\<lambda>n. ''Update failed: '' @ string_of_nat n) Inr"
  unfolding checks_status_def updateItem_def Let_def by (auto split: option.splits)

lemma checks_status_deleteItem:
  "checks_status fetch (deleteItem fetch t k)
     (\<lambda>n. ''Deletion failed: '' @ string_of_nat n) Inr"
  unfolding checks_status_def deleteItem_def Let_def by (auto split: option.splits)

lemma checks_status_fetchAllItems:
  "checks_status fetch (fetchAllItems fetch t)
     (\<lambda>n. ''HTTP error! status: '' @ string_of_nat n) json"
  unfolding checks_status_def fetchAllItems_def Let_def by (auto split: option.splits)

lemma checks_status_fetchFilteredItems:
  "checks_status fetch (fetchFilteredItems fetch t q)
     (\<lambda>n. ''HTTP error! status: '' @ string_of_nat n) json"
  unfolding checks_status_def fetchFilteredItems_def Let_def by (auto split: option.splits)

lemma checks_status_fetchTableMeta:
  "checks_status fetch (fetchTableMeta fetch t)
     (\<lambda>n. ''Failed to load metadata for '' @ t) json"
  unfolding checks_status_def fetchTableMeta_def Let_def by (auto split: option.splits)

text \<open>
  C9, as the code has it. Every accessor of the data-access module sends exactly one
  request (no retry); a non-success status of the response makes it throw an error, and
  a success status never does: create, update and delete then return the response, the
  three fetching accessors return its parsed body. The message names the operation and
  the numeric status for create, update and delete ("Create failed: 400", "Update
  failed: 404", "Deletion failed: 500"); it is "HTTP error! status: " and the status,
  with no operation name, for fetch-all-rows and fetch-filtered-rows; and it is "Failed
  to load metadata for " and the table name, with no status, for fetch-table-metadata.
\<close>

theorem data_access_checks_status:
  "checks_status fetch (createItem fetch t p) (\<lambda>n. ''Create failed: '' @ string_of_nat n) Inr
   \<and> checks_status fetch (updateItem fetch t k p)
       (\<lambda>n. ''Update failed: '' @ string_of_nat n) Inr
   \<and> checks_status fetch (deleteItem fetch t k)
       (\<lambda>n. ''Deletion failed: '' @ string_of_nat n) Inr
   \<and> checks_status fetch (fetchAllItems fetch t)
       (\<lambda>n. ''HTTP error! status: '' @ string_of_nat n) json
   \<and> checks_status fetch (fetchFilteredItems fetch t q)
       (\<lambda>n. ''HTTP error! status: '' @ string_of_nat n) json
   \<and> checks_status fetch (fetchTableMeta fetch t)
       (\<lambda>n. ''Failed to load metadata for '' @ t) json"
  by (intro conjI checks_status_createItem checks_status_updateItem checks_status_deleteItem
      checks_status_fetchAllItems checks_status_fetchFilteredItems checks_status_fetchTableMeta)

text \<open>
  The theorem at a server that answers every request with status 400 and no body: the
  create accessor throws "Create failed: 400" after one request.
\<close>

theorem data_access_checks_status_witness:
  "createItem (\<lambda>req. Some \<lparr>status = 400, parsed = (None :: unit option)\<rparr>) ''products'' ()
     = (Inl (Error ''Create failed: 400''),
        [\<lparr>http_method = ''POST'', path = [''api'', ''products''], payload = Some ()\<rparr>])"
proof -
  let ?fetch = "\<lambda>req :: unit request. Some \<lparr>status = 400, parsed = (None :: unit option)\<rparr>"
  have "checks_status ?fetch (createItem ?fetch ''products'' ())
          (\<lambda>n. ''Create failed: '' @ string_of_nat n) Inr"
    using data_access_checks_status [of ?fetch "''products''" "()"] by blast
  then have err: "fst (createItem ?fetch ''products'' ()) =
                Inl (Error (''Create failed: '' @ string_of_nat 400))"
    unfolding checks_status_def by (auto simp: ok_def)
  have digits: "string_of_nat 400 = ''400''" by code_simp
  have sent: "snd (createItem ?fetch ''products'' ()) =
      [\<lparr>http_method = ''POST'', path = [''api'', ''products''], payload = Some ()\<rparr>]"
    by (simp add: createItem_def)
  from err digits sent show ?thesis by (simp add: prod_eq_iff)
qed

text \<open>
  Against the claim as stated: at status 404 the message of fetch-table-metadata is
  "Failed to load metadata for products", in which the status does not occur.
\<close>

theorem fetchTableMeta_message_counterexample:
  "fst (fetchTableMeta (\<lambda>req :: unit request. Some \<lparr>status = 404, parsed = (None :: unit option)\<rparr>)
          ''products'')
     = Inl (Error ''Failed to load metadata for products'')
   \<and> \<not> has_substring ''Failed to load metadata for products'' (string_of_nat 404)"
proof -
  have digits: "string_of_nat 404 = ''404''" by code_simp
  have "\<not> includesStr ''Failed to load metadata for products'' ''404''" by simp
  then have "\<not> has_substring ''Failed to load metadata for products'' (string_of_nat 404)"
    by (simp add: includesStr_has_substring digits)
  moreover have "fst (fetchTableMeta
        (\<lambda>req :: unit request. Some \<lparr>status = 404, parsed = (None :: unit option)\<rparr>) ''products'')
      = Inl (Error ''Failed to load metadata for products'')"
    by (simp add: fetchTableMeta_def ok_def)
  ultimately show ?thesis by blast
qed

section \<open>Properties of the engine\<close>

lemma unquote_body_step:
  "c \<noteq> dquote \<Longrightarrow> xs \<noteq> [] \<Longrightarrow> unquote_body (c # xs) = map_option ((#) c) (unquote_body xs)"
  by (cases xs) simp_all

lemma unquote_body_replace: "unquote_body (replace_dquotes s @ [dquote]) = Some s"
proof (induction s)
  case Nil
  then show ?case by simp
next
  case (Cons c s)
  show ?case
  proof (cases "c = dquote")
    case True
    then show ?thesis using Cons.IH by simp
  next
    case False
    then show ?thesis using Cons.IH by (simp add: unquote_body_step)
  qed
qed

lemma unquote_quote [simp]: "unquoteIdentifier (quoteIdentifier s) = Some s"
  by (simp add: unquoteIdentifier_def quoteIdentifier_def unquote_body_replace)

lemma unquoteAll_quote [simp]: "unquoteAll (map quoteIdentifier ks) = Some ks"
  by (induction ks) simp_all

lemma lookup_table_quote [simp]:
  "lookup_table d (quoteIdentifier n) = (case d n of None \<Rightarrow> None | Some t \<Rightarrow> Some (n, t))"
  by (simp add: lookup_table_def)

lemma str_le_refl: "str_le s s"
  by (induction s) simp_all

lemma str_le_total: "str_le s t \<or> str_le t s"
  by (induction s t rule: str_le.induct) auto

lemma str_le_trans: "str_le s t \<Longrightarrow> str_le t u \<Longrightarrow> str_le s u"
proof (induction s t arbitrary: u rule: str_le.induct)
  case (1 t)
  then show ?case by simp
next
  case (2 c s)
  then show ?case by simp
next
  case (3 c s d t)
  then show ?case by (cases u) auto
qed

lemma str_le_antisym: "str_le s t \<Longrightarrow> str_le t s \<Longrightarrow> s = t"
proof (induction s t rule: str_le.induct)
  case (1 t)
  then show ?case by (cases t) simp_all
next
  case (2 c s)
  then show ?case by simp
next
  case (3 c s d t)
  then show ?case by auto
qed

lemma val_le_total: "val_le v w \<or> val_le w v"
  by (cases v; cases w) (auto simp: str_le_total)

lemma val_le_trans: "val_le u v \<Longrightarrow> val_le v w \<Longrightarrow> val_le u w"
  by (cases u; cases v; cases w) (auto intro: str_le_trans)

lemma val_le_antisym: "val_le v w \<Longrightarrow> val_le w v \<Longrightarrow> v = w"
  by (cases v; cases w) (auto intro: str_le_antisym)

lemma mset_insert_desc: "mset (insert_desc key r xs) = add_mset r (mset xs)"
  by (induction xs) simp_all

lemma set_insert_desc: "set (insert_desc key r xs) = insert r (set xs)"
  by (induction xs) auto

lemma mset_order_desc: "mset (order_desc key rs) = mset rs"
  by (induction rs) (simp_all add: order_desc_def mset_insert_desc)

lemma sorted_insert_desc:
  "sorted_wrt (\<lambda>a b. val_le (key b) (key a)) xs \<Longrightarrow>
   sorted_wrt (\<lambda>a b. val_le (key b) (key a)) (insert_desc key r xs)"
proof (induction xs)
  case Nil
  then show ?case by simp
next
  case (Cons x xs)
  show ?case
  proof (cases "val_le (key x) (key r)")
    case True
    with Cons.prems show ?thesis by (auto intro: val_le_trans)
  next
    case False
    then have "val_le (key r) (key x)" using val_le_total by blast
    with False Cons show ?thesis by (auto simp: set_insert_desc)
  qed
qed

lemma sorted_order_desc: "sorted_wrt (\<lambda>a b. val_le (key b) (key a)) (order_desc key rs)"
  by (induction rs) (simp_all add: order_desc_def sorted_insert_desc)

lemma strict_of_distinct:
  "sorted_wrt (\<lambda>a b. val_le (key b) (key a)) xs \<Longrightarrow> distinct (map key xs) \<Longrightarrow>
   sorted_wrt (\<lambda>a b. val_le (key b) (key a) \<and> \<not> val_le (key a) (key b)) xs"
proof (induction xs)
  case Nil
  then show ?case by simp
next
  case (Cons x xs)
  have "\<not> val_le (key x) (key y)" if "y \<in> set xs" for y
  proof
    assume "val_le (key x) (key y)"
    moreover have "val_le (key y) (key x)" using Cons.prems(1) that by simp
    ultimately have "key x = key y" by (rule val_le_antisym)
    with Cons.prems(2) that show False by force
  qed
  with Cons show ?case by simp
qed


lemma like_only_percent [simp]: "like ''%'' s"
  by (induction s) simp_all





section \<open>Properties of the metadata lookup\<close>

lemma sql_table_info_quote [simp]:
  "sql_table_info d (quoteIdentifier n) = Some (case d n of None \<Rightarrow> [] | Some t \<Rightarrow> tcols t)"
  by (simp add: sql_table_info_def split: option.splits)

lemma columns_meta_of_rows [simp]: "columns (meta_of_rows cols) = map cname cols"
  by (simp add: meta_of_rows_def Let_def)

lemma primaryKey_meta_of_rows:
  "primaryKey (meta_of_rows cols) =
     (case find (\<lambda>r. cpk r = 1) cols of
        Some r \<Rightarrow> Some (cname r)
      | None \<Rightarrow>
          (case find (\<lambda>r. cpk r > 0) cols of
             Some r \<Rightarrow> Some (cname r)
           | None \<Rightarrow> if ''id'' \<in> set (map cname cols) then Some ''id'' else None))"
  by (simp add: meta_of_rows_def Let_def split: option.splits)

lemma primaryKey_is_column:
  "primaryKey (meta_of_rows cols) = Some k \<Longrightarrow> k \<in> cname ` set cols"
  by (auto simp: primaryKey_meta_of_rows find_Some_iff split: option.splits if_splits)

lemma truthy_key_Some: "truthy_key m = Some k \<longleftrightarrow> primaryKey m = Some k \<and> k \<noteq> []"
  by (auto simp: truthy_key_def split: option.splits)



lemma find_column_None: "find_column t k = None \<longleftrightarrow> k \<notin> cname ` set (tcols t)"
  by (auto simp: find_column_def find_None_iff)

lemma getTableMetadata_cached:
  "n \<noteq> [] \<Longrightarrow> metadataCache st n = Some m \<Longrightarrow> getTableMetadata st n = (Inr m, st)"
  by (simp add: getTableMetadata_def)

lemma getTableMetadata_miss:
  "n \<noteq> [] \<Longrightarrow> metadataCache st n = None \<Longrightarrow> db st n = Some t \<Longrightarrow> tcols t \<noteq> [] \<Longrightarrow>
   getTableMetadata st n =
     (Inr (meta_of_rows (tcols t)),
      st\<lparr>metadataCache := (metadataCache st)(n \<mapsto> meta_of_rows (tcols t))\<rparr>)"
  by (simp add: getTableMetadata_def sql_master_lookup_def Let_def)

lemma getTableMetadata_db [simp]: "db (snd (getTableMetadata st n)) = db st"
  by (simp add: getTableMetadata_def Let_def split: option.splits)

lemma getTableMetadata_keeps:
  "metadataCache st k = Some m \<Longrightarrow> metadataCache (snd (getTableMetadata st n)) k = Some m"
  by (auto simp: getTableMetadata_def Let_def split: option.splits)

lemma getTableMetadata_Inr:
  "getTableMetadata st n = (Inr m, st') \<Longrightarrow> n \<noteq> [] \<and> metadataCache st' n = Some m"
  by (auto simp: getTableMetadata_def Let_def split: option.splits if_splits)

lemma getTableMetadata_consistent:
  "consistent st \<Longrightarrow> consistent (snd (getTableMetadata st n))"
  by (auto simp: getTableMetadata_def Let_def consistent_def sql_master_lookup_def
      split: option.splits)

lemma getTableMetadata_existing:
  assumes "consistent st" "db st n = Some t" "n \<noteq> []"
  shows "\<exists>st'. getTableMetadata st n = (Inr (meta_of_rows (tcols t)), st') \<and> db st' = db st \<and>
           consistent st' \<and> metadataCache st' n = Some (meta_of_rows (tcols t))"
proof (cases "metadataCache st n")
  case None
  from assms have cols: "tcols t \<noteq> []" by (auto simp: consistent_def)
  let ?st' = "st\<lparr>metadataCache := (metadataCache st)(n \<mapsto> meta_of_rows (tcols t))\<rparr>"
  have eq: "getTableMetadata st n = (Inr (meta_of_rows (tcols t)), ?st')"
    using None assms cols by (simp add: getTableMetadata_miss)
  have "consistent (snd (getTableMetadata st n))"
    using assms(1) by (rule getTableMetadata_consistent)
  with eq have "consistent ?st'" by simp
  with eq show ?thesis by simp
next
  case (Some m)
  with assms(1) obtain t' where "db st n = Some t'" "m = meta_of_rows (tcols t')"
    unfolding consistent_def by blast
  with assms(2) have "m = meta_of_rows (tcols t)" by simp
  with Some assms show ?thesis by (simp add: getTableMetadata_cached)
qed

section \<open>The statements that the routes send\<close>

lemma tcols_after_insert [simp]: "tcols (table_after_insert eng t asg) = tcols t"
  by (simp add: table_after_insert_def Let_def)

lemma tcols_after_update [simp]: "tcols (table_after_update eng t hit asg) = tcols t"
  by (simp add: table_after_update_def)

lemma sql_select_all_quoted:
  "d n = Some t \<Longrightarrow> (\<And>k. ob = Some k \<Longrightarrow> k \<in> cname ` set (tcols t)) \<Longrightarrow>
   sql_select_all d (quoteIdentifier n) (map_option quoteIdentifier ob) =
     Some (case ob of None \<Rightarrow> map snd (trows t)
           | Some k \<Rightarrow> order_desc (cell k) (map snd (trows t)))"
  by (cases ob) (auto simp: sql_select_all_def find_column_None split: option.splits)

lemma sql_select_where_quoted:
  "d n = Some t \<Longrightarrow> find_column t k = Some col \<Longrightarrow>
   sql_select_where eng d (quoteIdentifier n) (quoteIdentifier k) param =
     Some (filter (\<lambda>r. matches eng col (cell k r) param) (map snd (trows t)))"
  by (simp add: sql_select_where_def)



lemma sql_delete_quoted:
  "d n = Some t \<Longrightarrow> find_column t k = Some col \<Longrightarrow>
   sql_delete eng d (quoteIdentifier n) (quoteIdentifier k) param =
     Some (d(n \<mapsto> t\<lparr>trows := filter (\<lambda>(i, r). \<not> matches eng col (cell k r) param) (trows t)\<rparr>),
           length (filter (\<lambda>(i, r). matches eng col (cell k r) param) (trows t)))"
  by (simp add: sql_delete_def Let_def)




lemma length_body_values [simp]: "length (body_values b ks) = length ks"
  by (simp add: body_values_def)

section \<open>What the routes answer\<close>

lemma key_is_column:
  "truthy_key (meta_of_rows (tcols t)) = Some k \<Longrightarrow> k \<in> cname ` set (tcols t)"
  by (simp add: truthy_key_Some primaryKey_is_column)


lemma api_list_result:
  assumes "consistent st" "db st n = Some t" "n \<noteq> []"
  shows "\<exists>st'. api_list st n =
           (\<lparr>code = 200,
             sent = JsonRows (case truthy_key (meta_of_rows (tcols t)) of
                                None \<Rightarrow> map snd (trows t)
                              | Some k \<Rightarrow> order_desc (cell k) (map snd (trows t)))\<rparr>, st')
         \<and> db st' = db st \<and> consistent st'"
proof -
  let ?m = "meta_of_rows (tcols t)"
  from getTableMetadata_existing [OF assms] obtain st'
    where g: "getTableMetadata st n = (Inr ?m, st')" "db st' = db st" "consistent st'"
    by blast
  have "sql_select_all (db st') (quoteIdentifier n) (map_option quoteIdentifier (truthy_key ?m)) =
      Some (case truthy_key ?m of None \<Rightarrow> map snd (trows t)
            | Some k \<Rightarrow> order_desc (cell k) (map snd (trows t)))"
    using g(2) assms(2) by (intro sql_select_all_quoted) (simp_all add: key_is_column)
  with g show ?thesis by (simp add: api_list_def Let_def)
qed











lemma handle_keeps_cache:
  "metadataCache st k = Some m \<Longrightarrow> metadataCache (snd (handle eng st r)) k = Some m"
proof (cases r)
  case (GetMeta t)
  assume "metadataCache st k = Some m"
  from getTableMetadata_keeps [OF this, of t] show ?thesis
    using GetMeta by (auto simp: api_meta_def split: prod.splits sum.splits)
next
  case (GetList t)
  assume "metadataCache st k = Some m"
  from getTableMetadata_keeps [OF this, of t] show ?thesis
    using GetList by (auto simp: api_list_def Let_def split: prod.splits sum.splits option.splits)
next
  case (GetOne t i)
  assume "metadataCache st k = Some m"
  from getTableMetadata_keeps [OF this, of t] show ?thesis
    using GetOne
    by (auto simp: api_get_def Let_def split: prod.splits sum.splits option.splits list.splits)
next
  case (Post t b)
  assume "metadataCache st k = Some m"
  from getTableMetadata_keeps [OF this, of t] show ?thesis
    using Post
    by (auto simp: api_create_def Let_def split: prod.splits sum.splits option.splits)
next
  case (Put t i b)
  assume "metadataCache st k = Some m"
  from getTableMetadata_keeps [OF this, of t] show ?thesis
    using Put
    by (auto simp: api_update_def Let_def split: prod.splits sum.splits option.splits)
next
  case (Delete t i)
  assume "metadataCache st k = Some m"
  from getTableMetadata_keeps [OF this, of t] show ?thesis
    using Delete
    by (auto simp: api_delete_def Let_def split: prod.splits sum.splits option.splits)
next
  case (Search t q)
  assume "metadataCache st k = Some m"
  from getTableMetadata_keeps [OF this, of t] show ?thesis
    using Search
    by (auto simp: api_search_def Let_def split: prod.splits sum.splits option.splits)
qed

lemma serve_keeps_cache:
  "metadataCache st k = Some m \<Longrightarrow> metadataCache (serve eng st rs) k = Some m"
  by (induction rs arbitrary: st) (simp_all add: handle_keeps_cache)

lemma sql_insert_schema:
  "sql_insert eng d tq cqs vs = Some (d', i) \<Longrightarrow> map_option tcols (d' n) = map_option tcols (d n)"
  by (auto simp: sql_insert_def lookup_table_def Let_def split: option.splits if_splits)

lemma sql_update_schema:
  "sql_update eng d tq cqs wq vs p = Some (d', i) \<Longrightarrow>
   map_option tcols (d' n) = map_option tcols (d n)"
  by (auto simp: sql_update_def lookup_table_def Let_def split: option.splits if_splits)

lemma sql_delete_schema:
  "sql_delete eng d tq wq p = Some (d', i) \<Longrightarrow> map_option tcols (d' n) = map_option tcols (d n)"
  by (auto simp: sql_delete_def lookup_table_def Let_def split: option.splits if_splits)

lemma consistent_same_schema:
  assumes "consistent st" "\<And>n. map_option tcols (d n) = map_option tcols (db st n)"
  shows "consistent (st\<lparr>db := d\<rparr>)"
  unfolding consistent_def
proof (intro conjI allI impI)
  fix n t
  assume "db (st\<lparr>db := d\<rparr>) n = Some t"
  then have "d n = Some t" by simp
  with assms(2) [of n] obtain t0 where "db st n = Some t0" "tcols t0 = tcols t"
    by (cases "db st n") auto
  with assms(1) show "tcols t \<noteq> []" by (auto simp: consistent_def)
next
  fix n m
  assume "metadataCache (st\<lparr>db := d\<rparr>) n = Some m"
  then have c: "metadataCache st n = Some m" by simp
  with assms(1) show "n \<noteq> []" by (auto simp: consistent_def)
  from c assms(1) obtain t0 where t0: "db st n = Some t0" "m = meta_of_rows (tcols t0)"
    unfolding consistent_def by blast
  with assms(2) [of n] obtain t where "d n = Some t" "tcols t = tcols t0"
    by (cases "d n") auto
  with t0 show "\<exists>t. db (st\<lparr>db := d\<rparr>) n = Some t \<and> m = meta_of_rows (tcols t)" by simp
qed

lemma consistent_after:
  assumes "consistent st" "getTableMetadata st n = (x, st')"
    "\<And>k. map_option tcols (d k) = map_option tcols (db st' k)"
  shows "consistent (st'\<lparr>db := d\<rparr>)"
proof -
  from getTableMetadata_consistent [OF assms(1), of n] assms(2) have "consistent st'" by simp
  then show ?thesis using assms(3) by (rule consistent_same_schema)
qed

lemma handle_consistent: "consistent st \<Longrightarrow> consistent (snd (handle eng st r))"
proof (cases r)
  case (GetMeta t)
  assume "consistent st"
  from getTableMetadata_consistent [OF this, of t] show ?thesis
    using GetMeta by (auto simp: api_meta_def split: prod.splits sum.splits)
next
  case (GetList t)
  assume "consistent st"
  from getTableMetadata_consistent [OF this, of t] show ?thesis
    using GetList by (auto simp: api_list_def Let_def split: prod.splits sum.splits option.splits)
next
  case (GetOne t i)
  assume "consistent st"
  from getTableMetadata_consistent [OF this, of t] show ?thesis
    using GetOne
    by (auto simp: api_get_def Let_def split: prod.splits sum.splits option.splits list.splits)
next
  case (Search t q)
  assume "consistent st"
  from getTableMetadata_consistent [OF this, of t] show ?thesis
    using Search
    by (auto simp: api_search_def Let_def split: prod.splits sum.splits option.splits)
next
  case (Post t b)
  assume c: "consistent st"
  from getTableMetadata_consistent [OF this, of t] show ?thesis
    using Post
    by (auto simp: api_create_def Let_def split: prod.splits sum.splits option.splits
        intro!: consistent_after [OF c] sql_insert_schema)
next
  case (Put t i b)
  assume c: "consistent st"
  from getTableMetadata_consistent [OF this, of t] show ?thesis
    using Put
    by (auto simp: api_update_def Let_def split: prod.splits sum.splits option.splits
        intro!: consistent_after [OF c] sql_update_schema)
next
  case (Delete t i)
  assume c: "consistent st"
  from getTableMetadata_consistent [OF this, of t] show ?thesis
    using Delete
    by (auto simp: api_delete_def Let_def split: prod.splits sum.splits option.splits
        intro!: consistent_after [OF c] sql_delete_schema)
qed

lemma serve_consistent: "consistent st \<Longrightarrow> consistent (serve eng st rs)"
  by (induction rs arbitrary: st) (simp_all add: handle_consistent)

lemma consistent_start:
  "metadataCache st = Map.empty \<Longrightarrow> (\<And>n t. db st n = Some t \<Longrightarrow> tcols t \<noteq> []) \<Longrightarrow> consistent st"
  by (auto simp: consistent_def)

lemma consistent_fresh: "consistent fresh"
  by (rule consistent_start)
    (auto simp: fresh_def shop_def products_def memos_def tags_def pairs_def units_def
      split: if_splits)

section \<open>Listing the rows of a table\<close>

lemma primaryKey_present:
  "primaryKey (meta_of_rows cols) \<noteq> None \<longleftrightarrow>
     (\<exists>c \<in> set cols. cpk c > 0) \<or> ''id'' \<in> cname ` set cols"
  by (auto simp: primaryKey_meta_of_rows find_None_iff find_Some_iff split: option.splits)

text \<open>
  C1, as the code has it. In a consistent state, for every existing table, the list route
  answers 200 with all the rows of the table, each as often as it is stored; an empty
  table gives the empty array. When the metadata of the table has a primary key (a
  flagged column or a column named id, with a name that is not empty), the rows are in
  descending order of that column: no row is followed by one with a larger key. The order
  is strict when the key values of the rows are pairwise distinct; rows with equal key
  values, which a column named id that is not a declared key may hold, follow one
  another. When the metadata has no primary key the rows come as the engine yields them
  without an \<^verbatim>\<open>ORDER BY\<close> clause, in storage order.
\<close>

theorem list_rows_descending:
  assumes "consistent st" "db st n = Some t" "n \<noteq> []"
  shows "\<exists>rs st'. api_list st n = (\<lparr>code = 200, sent = JsonRows rs\<rparr>, st')
           \<and> mset rs = mset (map snd (trows t))
           \<and> (trows t = [] \<longrightarrow> rs = [])
           \<and> (case truthy_key (meta_of_rows (tcols t)) of
                 Some k \<Rightarrow> descending_by k rs \<and>
                   (distinct (map (cell k) rs) \<longrightarrow> strictly_descending_by k rs)
               | None \<Rightarrow> rs = map snd (trows t))"
proof -
  let ?rows = "map snd (trows t)"
  let ?rs = "case truthy_key (meta_of_rows (tcols t)) of
               None \<Rightarrow> ?rows | Some k \<Rightarrow> order_desc (cell k) ?rows"
  from api_list_result [OF assms] obtain st'
    where r: "api_list st n = (\<lparr>code = 200, sent = JsonRows ?rs\<rparr>, st')" by blast
  have perm: "mset ?rs = mset ?rows"
    by (simp add: mset_order_desc split: option.splits)
  then have empty: "trows t = [] \<longrightarrow> ?rs = []"
    by (auto split: option.splits simp: order_desc_def)
  have ord: "case truthy_key (meta_of_rows (tcols t)) of
                 Some k \<Rightarrow> descending_by k ?rs \<and>
                   (distinct (map (cell k) ?rs) \<longrightarrow> strictly_descending_by k ?rs)
               | None \<Rightarrow> ?rs = ?rows"
    by (auto simp: descending_by_def strictly_descending_by_def sorted_order_desc
        intro: strict_of_distinct split: option.splits)
  from r perm empty ord show ?thesis by blast
qed

text \<open>
  The theorem at the table of products of the example database: the hypotheses hold, the
  key is the column id, and the list is a descending arrangement of the two rows.
\<close>

theorem list_rows_descending_witness:
  "consistent fresh \<and> db fresh ''products'' = Some products
   \<and> truthy_key (meta_of_rows (tcols products)) = Some ''id''
   \<and> (\<exists>rs st'. api_list fresh ''products'' = (\<lparr>code = 200, sent = JsonRows rs\<rparr>, st')
          \<and> mset rs = mset (map snd (trows products)) \<and> descending_by ''id'' rs)"
proof -
  have d: "db fresh ''products'' = Some products" by (simp add: fresh_def shop_def)
  have k: "truthy_key (meta_of_rows (tcols products)) = Some ''id''"
    by (simp add: truthy_key_def meta_of_rows_def products_def)
  from list_rows_descending [OF consistent_fresh d] k
  have "\<exists>rs st'. api_list fresh ''products'' = (\<lparr>code = 200, sent = JsonRows rs\<rparr>, st')
          \<and> mset rs = mset (map snd (trows products)) \<and> descending_by ''id'' rs"
    by auto
  with consistent_fresh d k show ?thesis by blast
qed

text \<open>
  Against the claim as stated: the table of tags has a column named id and no declared
  key, so id is its primary key for the server; its two rows have the same id, and the
  list, though ordered by id, is not strictly descending.
\<close>

theorem list_rows_not_strict_counterexample:
  "fst (api_list fresh ''tags'') =
     \<lparr>code = 200,
      sent = JsonRows [[(''id'', Integer 7), (''label'', Text ''red'')],
                       [(''id'', Integer 7), (''label'', Text ''blue'')]]\<rparr>
   \<and> primaryKey (meta_of_rows (tcols tags)) = Some ''id''
   \<and> \<not> strictly_descending_by ''id''
         [[(''id'', Integer 7), (''label'', Text ''red'')],
          [(''id'', Integer 7), (''label'', Text ''blue'')]]"
proof -
  have a: "fst (api_list fresh ''tags'') =
     \<lparr>code = 200,
      sent = JsonRows [[(''id'', Integer 7), (''label'', Text ''red'')],
                       [(''id'', Integer 7), (''label'', Text ''blue'')]]\<rparr>"
    by code_simp
  have b: "primaryKey (meta_of_rows (tcols tags)) = Some ''id''"
    by (simp add: meta_of_rows_def tags_def)
  have c: "\<not> strictly_descending_by ''id''
         [[(''id'', Integer 7), (''label'', Text ''red'')],
          [(''id'', Integer 7), (''label'', Text ''blue'')]]"
    by (simp add: strictly_descending_by_def cell_def)
  from a b c show ?thesis by blast
qed

section \<open>Resolving and caching the metadata\<close>

text \<open>
  C2, as the code has it. For a table that exists, has columns and is not yet cached,
  \<open>getTableMetadata\<close> returns the column names and the primary key, stores them in the
  cache under the table name, and returns the same metadata unchanged on every later
  call for that name, whatever requests the server handles in between. The primary key
  is the name of the first column whose position in the primary key is 1 (\<^verbatim>\<open>pk === 1\<close>);
  if there is none, the first column that is flagged at all (\<^verbatim>\<open>pk > 0\<close>); if none is
  flagged, the column named id when there is one; otherwise it is absent. When no column
  has a position above 1 (a key of one column), this is the first flagged column.
\<close>

theorem metadata_resolved_and_cached:
  assumes "db st n = Some t" "tcols t \<noteq> []" "n \<noteq> []" "metadataCache st n = None"
  shows "\<exists>st'. getTableMetadata st n = (Inr (meta_of_rows (tcols t)), st')
           \<and> metadataCache st' = (metadataCache st)(n \<mapsto> meta_of_rows (tcols t))
           \<and> db st' = db st
           \<and> (\<forall>eng rs. getTableMetadata (serve eng st' rs) n =
                 (Inr (meta_of_rows (tcols t)), serve eng st' rs))
           \<and> columns (meta_of_rows (tcols t)) = map cname (tcols t)
           \<and> primaryKey (meta_of_rows (tcols t)) =
               (case find (\<lambda>c. cpk c = 1) (tcols t) of
                  Some c \<Rightarrow> Some (cname c)
                | None \<Rightarrow>
                    (case first_flagged (tcols t) of
                       Some k \<Rightarrow> Some k
                     | None \<Rightarrow> if ''id'' \<in> set (map cname (tcols t)) then Some ''id'' else None))
           \<and> ((\<forall>c \<in> set (tcols t). cpk c \<le> 1) \<longrightarrow>
                primaryKey (meta_of_rows (tcols t)) =
                  (case first_flagged (tcols t) of
                     Some k \<Rightarrow> Some k
                   | None \<Rightarrow> if ''id'' \<in> set (map cname (tcols t)) then Some ''id'' else None))"
proof -
  let ?m = "meta_of_rows (tcols t)"
  let ?st' = "st\<lparr>metadataCache := (metadataCache st)(n \<mapsto> ?m)\<rparr>"
  have g: "getTableMetadata st n = (Inr ?m, ?st')"
    using assms by (simp add: getTableMetadata_miss)
  have later: "getTableMetadata (serve eng ?st' rs) n = (Inr ?m, serve eng ?st' rs)" for eng rs
  proof -
    have "metadataCache ?st' n = Some ?m" by simp
    then have "metadataCache (serve eng ?st' rs) n = Some ?m" by (rule serve_keeps_cache)
    with assms(3) show ?thesis by (simp add: getTableMetadata_cached)
  qed
  have pk: "primaryKey ?m =
      (case find (\<lambda>c. cpk c = 1) (tcols t) of
         Some c \<Rightarrow> Some (cname c)
       | None \<Rightarrow>
           (case first_flagged (tcols t) of
              Some k \<Rightarrow> Some k
            | None \<Rightarrow> if ''id'' \<in> set (map cname (tcols t)) then Some ''id'' else None))"
    by (simp add: primaryKey_meta_of_rows first_flagged_def split: option.splits)
  have same: "find (\<lambda>c. cpk c = 1) cols = find (\<lambda>c. cpk c > 0) cols"
    if "\<forall>c \<in> set cols. cpk c \<le> 1" for cols :: "column list"
    using that by (induction cols) auto
  have single: "(\<forall>c \<in> set (tcols t). cpk c \<le> 1) \<longrightarrow>
      primaryKey ?m =
        (case first_flagged (tcols t) of
           Some k \<Rightarrow> Some k
         | None \<Rightarrow> if ''id'' \<in> set (map cname (tcols t)) then Some ''id'' else None)"
  proof
    assume "\<forall>c \<in> set (tcols t). cpk c \<le> 1"
    then have "find (\<lambda>c. cpk c = 1) (tcols t) = find (\<lambda>c. cpk c > 0) (tcols t)"
      by (rule same)
    then show "primaryKey ?m =
        (case first_flagged (tcols t) of
           Some k \<Rightarrow> Some k
         | None \<Rightarrow> if ''id'' \<in> set (map cname (tcols t)) then Some ''id'' else None)"
      unfolding pk first_flagged_def by (simp split: option.splits)
  qed
  from g later pk single show ?thesis by simp
qed

text \<open>
  The theorem at the table of products on the fresh server: the key is id, and it is
  still id after a delete and a list request.
\<close>

theorem metadata_resolved_and_cached_witness:
  "db fresh ''products'' = Some products \<and> tcols products \<noteq> [] \<and>
   metadataCache fresh ''products'' = None \<and>
   fst (getTableMetadata fresh ''products'') =
     Inr \<lparr>columns = [''id'', ''name'', ''price''], primaryKey = Some ''id''\<rparr> \<and>
   fst (getTableMetadata
          (serve plain_engine (snd (getTableMetadata fresh ''products''))
             [Delete ''products'' ''1'', GetList ''products''])
          ''products'') =
     Inr \<lparr>columns = [''id'', ''name'', ''price''], primaryKey = Some ''id''\<rparr>"
proof -
  have d: "db fresh ''products'' = Some products" by (simp add: fresh_def shop_def)
  have c: "tcols products \<noteq> []" by (simp add: products_def)
  have e: "metadataCache fresh ''products'' = None" by (simp add: fresh_def)
  have m: "meta_of_rows (tcols products) =
      \<lparr>columns = [''id'', ''name'', ''price''], primaryKey = Some ''id''\<rparr>"
    by (simp add: meta_of_rows_def products_def)
  from metadata_resolved_and_cached [OF d c _ e] obtain st'
    where g: "getTableMetadata fresh ''products'' = (Inr (meta_of_rows (tcols products)), st')"
      and l: "\<forall>eng rs. getTableMetadata (serve eng st' rs) ''products'' =
                 (Inr (meta_of_rows (tcols products)), serve eng st' rs)"
    by auto
  from g have s: "snd (getTableMetadata fresh ''products'') = st'" by simp
  from l have "getTableMetadata
        (serve plain_engine st' [Delete ''products'' ''1'', GetList ''products'']) ''products'' =
      (Inr (meta_of_rows (tcols products)),
       serve plain_engine st' [Delete ''products'' ''1'', GetList ''products''])"
    by blast
  then have "fst (getTableMetadata
        (serve plain_engine st' [Delete ''products'' ''1'', GetList ''products'']) ''products'') =
      Inr (meta_of_rows (tcols products))"
    by (simp only: fst_conv)
  with g m d c e show ?thesis unfolding s by (simp only: fst_conv simp_thms)
qed

text \<open>
  Against the claim as stated: in the table of pairs, whose primary key is declared as
  (b, a), the first flagged column is a, and the primary key of the metadata is b.
\<close>

theorem metadata_key_position_counterexample:
  "fst (getTableMetadata fresh ''pairs'') =
     Inr \<lparr>columns = [''a'', ''b''], primaryKey = Some ''b''\<rparr>
   \<and> first_flagged (tcols pairs) = Some ''a''"
proof -
  have a: "fst (getTableMetadata fresh ''pairs'') =
     Inr \<lparr>columns = [''a'', ''b''], primaryKey = Some ''b''\<rparr>"
    by code_simp
  have b: "first_flagged (tcols pairs) = Some ''a''"
    by (simp add: first_flagged_def pairs_def)
  from a b show ?thesis by blast
qed

section \<open>Creating a row\<close>









section \<open>Updating a row\<close>





section \<open>Searching a table\<close>




section \<open>A table with no primary key\<close>




end
